theory Spec2Isabelle
  imports Complex_Main
begin

text \<open>
  The losses of \<^verbatim>\<open>_src/losses.py\<close>: \<open>l2_loss\<close>, \<open>likelihood\<close> and \<open>log_loss\<close>, three
  elementwise functions on arrays of floating-point numbers, embedded with the
  arithmetic of the array library they call.
\<close>

section \<open>Floating-point values\<close>

text \<open>
  An element is a NaN, an infinity or a finite real; the finite values of a format are
  the reals that rounding to that format leaves unchanged. The two zeros of IEEE 754
  compare equal and are one value here, \<open>Fin 0\<close>, and there is one NaN.
\<close>

datatype fl = NaN | PInf | NInf | Fin real

text \<open>The floating-point element types of the array library, with their precision
  (significand bits, the hidden bit included) and largest exponent.\<close>

datatype ffmt = BFloat16 | Float16 | Float32 | Float64

fun prec :: "ffmt \<Rightarrow> nat" where
  "prec BFloat16 = 8"
| "prec Float16 = 11"
| "prec Float32 = 24"
| "prec Float64 = 53"

fun emax :: "ffmt \<Rightarrow> int" where
  "emax BFloat16 = 127"
| "emax Float16 = 15"
| "emax Float32 = 127"
| "emax Float64 = 1023"

definition emin :: "ffmt \<Rightarrow> int" where
  "emin f = 1 - emax f"

text \<open>The binary exponent of a positive real: \<open>ilog2 x = \<lfloor>log 2 x\<rfloor>\<close>, computed by halving
  and doubling so that it evaluates on rationals.\<close>

function ilog2 :: "real \<Rightarrow> int" where
  "ilog2 x = (if 2 \<le> x then ilog2 (x / 2) + 1
              else if 0 < x \<and> x < 1 then ilog2 (2 * x) - 1
              else 0)"
  by pat_completeness auto

lemma floor_log2_half: "2 \<le> x \<Longrightarrow> \<lfloor>log 2 (x / 2)\<rfloor> = \<lfloor>log 2 x\<rfloor> - 1"
  by (simp add: log_divide)

lemma floor_log2_double: "0 < x \<Longrightarrow> \<lfloor>log 2 (2 * x)\<rfloor> = \<lfloor>log 2 x\<rfloor> + 1"
  by (simp add: log_mult)

lemma floor_log2_ge1: "2 \<le> x \<Longrightarrow> 1 \<le> \<lfloor>log 2 x\<rfloor>"
proof -
  assume "2 \<le> x"
  then have "log 2 2 \<le> log 2 x" by simp
  then show ?thesis by (simp add: le_floor_iff)
qed

lemma floor_log2_neg: "0 < x \<Longrightarrow> x < 1 \<Longrightarrow> \<lfloor>log 2 x\<rfloor> < 0"
proof -
  assume "0 < x" "x < 1"
  then have "log 2 x < 0" by simp
  then show ?thesis by (simp add: floor_less_iff)
qed

termination ilog2
proof (relation "measure (\<lambda>x. nat \<bar>\<lfloor>log 2 x\<rfloor>\<bar>)")
  show "wf (measure (\<lambda>x. nat \<bar>\<lfloor>log 2 x\<rfloor>\<bar>))" by simp
next
  fix x :: real
  assume "2 \<le> x"
  then show "(x / 2, x) \<in> measure (\<lambda>x. nat \<bar>\<lfloor>log 2 x\<rfloor>\<bar>)"
    using floor_log2_half [of x] floor_log2_ge1 [of x] by simp
next
  fix x :: real
  assume "\<not> 2 \<le> x" "0 < x \<and> x < 1"
  then have "\<lfloor>log 2 (2 * x)\<rfloor> = \<lfloor>log 2 x\<rfloor> + 1" "\<lfloor>log 2 x\<rfloor> < 0"
    using floor_log2_double [of x] floor_log2_neg [of x] by simp_all
  then have "nat \<bar>\<lfloor>log 2 (2 * x)\<rfloor>\<bar> < nat \<bar>\<lfloor>log 2 x\<rfloor>\<bar>" by linarith
  then show "(2 * x, x) \<in> measure (\<lambda>x. nat \<bar>\<lfloor>log 2 x\<rfloor>\<bar>)" by simp
qed

declare ilog2.simps [simp del]

text \<open>Rounding to nearest, ties to even (the default rounding of IEEE 754), with gradual
  underflow and overflow to infinity. \<open>rne\<close> rounds a real to an integer; \<open>quantum f m\<close>
  is the spacing of the format's values around the magnitude \<open>m\<close>.\<close>

definition rne :: "real \<Rightarrow> int" where
  "rne x = (let n = \<lfloor>x\<rfloor>; d = x - of_int n
            in if d < 1 / 2 then n
               else if 1 / 2 < d then n + 1
               else if even n then n else n + 1)"

definition quantum :: "ffmt \<Rightarrow> real \<Rightarrow> real" where
  "quantum f m = 2 powi (max (ilog2 m) (emin f) - (int (prec f) - 1))"

definition round_mag :: "ffmt \<Rightarrow> real \<Rightarrow> real" where
  "round_mag f m = of_int (rne (m / quantum f m)) * quantum f m"

definition rnd :: "ffmt \<Rightarrow> real \<Rightarrow> fl" where
  "rnd f x = (let r = round_mag f \<bar>x\<bar>
              in if 2 powi (emax f + 1) \<le> r then (if 0 < x then PInf else NInf)
                 else Fin (sgn x * r))"

text \<open>Conversion of an element to a format (the library converts both operands of a
  binary operation to the promoted element type).\<close>

fun cvt :: "ffmt \<Rightarrow> fl \<Rightarrow> fl" where
  "cvt f (Fin a) = rnd f a"
| "cvt f x = x"

text \<open>The arithmetic that IEEE 754 fixes: negation, correctly rounded subtraction and
  multiplication, and comparison (a NaN equals nothing, itself included).\<close>

fun fneg :: "fl \<Rightarrow> fl" where
  "fneg NaN = NaN"
| "fneg PInf = NInf"
| "fneg NInf = PInf"
| "fneg (Fin a) = Fin (- a)"

fun fsub :: "ffmt \<Rightarrow> fl \<Rightarrow> fl \<Rightarrow> fl" where
  "fsub f NaN y = NaN"
| "fsub f x NaN = NaN"
| "fsub f PInf PInf = NaN"
| "fsub f PInf y = PInf"
| "fsub f NInf NInf = NaN"
| "fsub f NInf y = NInf"
| "fsub f (Fin a) PInf = NInf"
| "fsub f (Fin a) NInf = PInf"
| "fsub f (Fin a) (Fin b) = rnd f (a - b)"

text \<open>An infinity times a finite value: NaN at zero, otherwise an infinity of the
  product's sign.\<close>

definition inf_times :: "bool \<Rightarrow> real \<Rightarrow> fl" where
  "inf_times positive a =
     (if a = 0 then NaN else if (0 < a) = positive then PInf else NInf)"

fun fmul :: "ffmt \<Rightarrow> fl \<Rightarrow> fl \<Rightarrow> fl" where
  "fmul f NaN y = NaN"
| "fmul f x NaN = NaN"
| "fmul f PInf PInf = PInf"
| "fmul f PInf NInf = NInf"
| "fmul f NInf PInf = NInf"
| "fmul f NInf NInf = PInf"
| "fmul f PInf (Fin b) = inf_times True b"
| "fmul f NInf (Fin b) = inf_times False b"
| "fmul f (Fin a) PInf = inf_times True a"
| "fmul f (Fin a) NInf = inf_times False a"
| "fmul f (Fin a) (Fin b) = rnd f (a * b)"

definition feq :: "fl \<Rightarrow> fl \<Rightarrow> bool" where
  "feq x y = (x \<noteq> NaN \<and> y \<noteq> NaN \<and> x = y)"


fun finite_fl :: "fl \<Rightarrow> bool" where
  "finite_fl (Fin a) = True"
| "finite_fl x = False"

section \<open>The array library\<close>

text \<open>
  The module calls the array library for all arithmetic. The power and the logarithm
  are computed by kernels that differ between versions and devices (the source itself
  notes that \<open>0**0\<close> evaluates to NaN on TPUs), so every function below takes them as a
  parameter: the kernel gets the element type of the result and the operands.
\<close>

record backend =
  lax_pow :: "ffmt \<Rightarrow> fl \<Rightarrow> fl \<Rightarrow> fl"
  lax_log :: "ffmt \<Rightarrow> fl \<Rightarrow> fl"

datatype dtype = Boolean | SignedInteger | UnsignedInteger | Floating ffmt | ComplexFloating

datatype error = TypeAssertion | IncompatibleShapes

text \<open>An n-dimensional array: its element type, its shape and its element at each
  index (one coordinate per dimension). A boolean array is a \<open>mask\<close>.\<close>

record array =
  dtype :: dtype
  shape :: "nat list"
  item :: "nat list \<Rightarrow> fl"

record mask =
  mask_shape :: "nat list"
  mask_item :: "nat list \<Rightarrow> bool"

definition in_bounds :: "nat list \<Rightarrow> nat list \<Rightarrow> bool" where
  "in_bounds s idx = list_all2 (<) idx s"

fun is_floating :: "dtype \<Rightarrow> bool" where
  "is_floating (Floating f) = True"
| "is_floating d = False"

text \<open>The format of a floating-point array. Only floating-point arrays reach the
  arithmetic (\<open>type_assert\<close> comes first in every function); for the other element
  types the library's default float format stands in, a case no function evaluates.\<close>

fun float_format :: "dtype \<Rightarrow> ffmt" where
  "float_format (Floating f) = f"
| "float_format d = Float32"

text \<open>Type promotion among the float formats: the wider format, and \<open>Float32\<close> for the
  two 16-bit formats together.\<close>

fun promote :: "ffmt \<Rightarrow> ffmt \<Rightarrow> ffmt" where
  "promote Float64 g = Float64"
| "promote f Float64 = Float64"
| "promote Float32 g = Float32"
| "promote f Float32 = Float32"
| "promote BFloat16 BFloat16 = BFloat16"
| "promote Float16 Float16 = Float16"
| "promote BFloat16 Float16 = Float32"
| "promote Float16 BFloat16 = Float32"

text \<open>Broadcasting: shapes are aligned at their last dimension; two dimensions are
  compatible when they are equal or one of them is 1. \<open>broadcast_rev\<close> works on the
  reversed shapes. \<open>operand_index s idx\<close> is the index into an operand of shape \<open>s\<close>
  that the index \<open>idx\<close> of the result reads: leading coordinates are dropped and a
  dimension of size 1 is read at 0.\<close>

fun broadcast_rev :: "nat list \<Rightarrow> nat list \<Rightarrow> nat list option" where
  "broadcast_rev [] ys = Some ys"
| "broadcast_rev xs [] = Some xs"
| "broadcast_rev (x # xs) (y # ys) =
     (if x = y \<or> y = 1 then map_option ((#) x) (broadcast_rev xs ys)
      else if x = 1 then map_option ((#) y) (broadcast_rev xs ys)
      else None)"

definition broadcast_shapes :: "nat list \<Rightarrow> nat list \<Rightarrow> error + nat list" where
  "broadcast_shapes a b =
     (case broadcast_rev (rev a) (rev b) of
        None \<Rightarrow> Inl IncompatibleShapes
      | Some s \<Rightarrow> Inr (rev s))"

definition dim_index :: "nat \<Rightarrow> nat \<Rightarrow> nat" where
  "dim_index d i = (if d = 1 then 0 else i)"

definition operand_index :: "nat list \<Rightarrow> nat list \<Rightarrow> nat list" where
  "operand_index s idx = rev (map2 dim_index (rev s) (rev idx))"

text \<open>An elementwise binary operation on two arrays, and an elementwise unary one.\<close>

definition elementwise2 :: "(ffmt \<Rightarrow> fl \<Rightarrow> fl \<Rightarrow> fl) \<Rightarrow> array \<Rightarrow> array \<Rightarrow> error + array" where
  "elementwise2 op a b =
     (case broadcast_shapes (shape a) (shape b) of
        Inl e \<Rightarrow> Inl e
      | Inr s \<Rightarrow>
          (let f = promote (float_format (dtype a)) (float_format (dtype b))
           in Inr \<lparr>dtype = Floating f, shape = s,
                   item = (\<lambda>idx. op f (cvt f (item a (operand_index (shape a) idx)))
                                       (cvt f (item b (operand_index (shape b) idx))))\<rparr>))"

definition elementwise1 :: "(ffmt \<Rightarrow> fl \<Rightarrow> fl) \<Rightarrow> array \<Rightarrow> array" where
  "elementwise1 op a = a\<lparr>item := (\<lambda>idx. op (float_format (dtype a)) (item a idx))\<rparr>"

text \<open>The operators of the source. A Python scalar operand (\<open>0.5\<close>, \<open>1.\<close>, \<open>1\<close>, \<open>0\<close>,
  \<open>2\<close>) takes the element type of the array it meets.\<close>

definition array_sub :: "array \<Rightarrow> array \<Rightarrow> error + array" where
  "array_sub = elementwise2 fsub"

definition array_mul :: "array \<Rightarrow> array \<Rightarrow> error + array" where
  "array_mul = elementwise2 fmul"

definition array_pow :: "backend \<Rightarrow> array \<Rightarrow> array \<Rightarrow> error + array" where
  "array_pow K = elementwise2 (lax_pow K)"

definition scalar_sub :: "real \<Rightarrow> array \<Rightarrow> array" where
  "scalar_sub c = elementwise1 (\<lambda>f x. fsub f (rnd f c) x)"

definition scalar_mul :: "real \<Rightarrow> array \<Rightarrow> array" where
  "scalar_mul c = elementwise1 (\<lambda>f x. fmul f (rnd f c) x)"

definition array_pow_scalar :: "backend \<Rightarrow> array \<Rightarrow> real \<Rightarrow> array" where
  "array_pow_scalar K a c = elementwise1 (\<lambda>f x. lax_pow K f x (rnd f c)) a"

definition array_neg :: "array \<Rightarrow> array" where
  "array_neg = elementwise1 (\<lambda>f. fneg)"

definition jnp_log :: "backend \<Rightarrow> array \<Rightarrow> array" where
  "jnp_log K = elementwise1 (lax_log K)"

definition array_eq_scalar :: "array \<Rightarrow> real \<Rightarrow> mask" where
  "array_eq_scalar a c =
     \<lparr>mask_shape = shape a,
      mask_item = (\<lambda>idx. feq (item a idx) (rnd (float_format (dtype a)) c))\<rparr>"

definition logical2 :: "(bool \<Rightarrow> bool \<Rightarrow> bool) \<Rightarrow> mask \<Rightarrow> mask \<Rightarrow> error + mask" where
  "logical2 op m n =
     (case broadcast_shapes (mask_shape m) (mask_shape n) of
        Inl e \<Rightarrow> Inl e
      | Inr s \<Rightarrow>
          Inr \<lparr>mask_shape = s,
               mask_item = (\<lambda>idx. op (mask_item m (operand_index (mask_shape m) idx))
                                      (mask_item n (operand_index (mask_shape n) idx)))\<rparr>)"

definition jnp_logical_and :: "mask \<Rightarrow> mask \<Rightarrow> error + mask" where
  "jnp_logical_and = logical2 (\<and>)"

definition jnp_logical_or :: "mask \<Rightarrow> mask \<Rightarrow> error + mask" where
  "jnp_logical_or = logical2 (\<or>)"

text \<open>\<open>jnp.where(condition, c, a)\<close> with a scalar \<open>c\<close>: the selection, elementwise.\<close>

definition jnp_where :: "mask \<Rightarrow> real \<Rightarrow> array \<Rightarrow> error + array" where
  "jnp_where m c a =
     (case broadcast_shapes (mask_shape m) (shape a) of
        Inl e \<Rightarrow> Inl e
      | Inr s \<Rightarrow>
          Inr \<lparr>dtype = dtype a, shape = s,
               item = (\<lambda>idx. if mask_item m (operand_index (mask_shape m) idx)
                               then rnd (float_format (dtype a)) c
                               else item a (operand_index (shape a) idx))\<rparr>)"

definition jnp_zeros_like :: "array \<Rightarrow> array" where
  "jnp_zeros_like a = \<lparr>dtype = dtype a, shape = shape a, item = (\<lambda>idx. Fin 0)\<rparr>"

text \<open>
  Modelled from the spec: \<open>base.type_assert\<close> is not among the sources. The spec gives
  it as the assertion primitive that fails, with a TypeAssertion error, when the element
  type of an input array is not floating-point.
\<close>

definition type_assert :: "array list \<Rightarrow> error + unit" where
  "type_assert inputs =
     (if list_all (\<lambda>a. is_floating (dtype a)) inputs then Inr () else Inl TypeAssertion)"

section \<open>The losses\<close>

text \<open>
  \<^verbatim>\<open>def l2_loss(predictions, targets=None):\<close>

  \<^verbatim>\<open>  if targets is None:\<close>

  \<^verbatim>\<open>    targets = jnp.zeros_like(predictions)\<close>

  \<^verbatim>\<open>  base.type_assert([predictions, targets], float)\<close>

  \<^verbatim>\<open>  return 0.5 * (predictions - targets)**2\<close>
\<close>

definition l2_loss :: "backend \<Rightarrow> array \<Rightarrow> array option \<Rightarrow> error + array" where
  "l2_loss K predictions targets_arg =
     (let targets = (case targets_arg of None \<Rightarrow> jnp_zeros_like predictions | Some t \<Rightarrow> t)
      in case type_assert [predictions, targets] of
           Inl e \<Rightarrow> Inl e
         | Inr u \<Rightarrow>
             (case array_sub predictions targets of
                Inl e \<Rightarrow> Inl e
              | Inr d \<Rightarrow> Inr (scalar_mul (1 / 2) (array_pow_scalar K d 2))))"

text \<open>
  \<^verbatim>\<open>def likelihood(predictions, targets):\<close>

  \<^verbatim>\<open>  base.type_assert([predictions, targets], float)\<close>

  \<^verbatim>\<open>  likelihood_vals = predictions**targets * (1. - predictions)**(1. - targets)\<close>

  \<^verbatim>\<open>  filter_indices = jnp.logical_or(\<close>

  \<^verbatim>\<open>      jnp.logical_and(targets == 1, predictions == 1),\<close>

  \<^verbatim>\<open>      jnp.logical_and(targets == 0, predictions == 0))\<close>

  \<^verbatim>\<open>  return jnp.where(filter_indices, 1, likelihood_vals)\<close>
\<close>

definition likelihood :: "backend \<Rightarrow> array \<Rightarrow> array \<Rightarrow> error + array" where
  "likelihood K predictions targets =
     (case type_assert [predictions, targets] of
        Inl e \<Rightarrow> Inl e
      | Inr u \<Rightarrow>
     (case array_pow K predictions targets of
        Inl e \<Rightarrow> Inl e
      | Inr a \<Rightarrow>
     (case array_pow K (scalar_sub 1 predictions) (scalar_sub 1 targets) of
        Inl e \<Rightarrow> Inl e
      | Inr b \<Rightarrow>
     (case array_mul a b of
        Inl e \<Rightarrow> Inl e
      | Inr likelihood_vals \<Rightarrow>
     (case jnp_logical_and (array_eq_scalar targets 1) (array_eq_scalar predictions 1) of
        Inl e \<Rightarrow> Inl e
      | Inr both_one \<Rightarrow>
     (case jnp_logical_and (array_eq_scalar targets 0) (array_eq_scalar predictions 0) of
        Inl e \<Rightarrow> Inl e
      | Inr both_zero \<Rightarrow>
     (case jnp_logical_or both_one both_zero of
        Inl e \<Rightarrow> Inl e
      | Inr filter_indices \<Rightarrow> jnp_where filter_indices 1 likelihood_vals)))))))"

text \<open>
  \<^verbatim>\<open>def log_loss(predictions, targets):\<close>

  \<^verbatim>\<open>  base.type_assert([predictions, targets], float)\<close>

  \<^verbatim>\<open>  return -jnp.log(likelihood(predictions, targets))\<close>
\<close>

definition log_loss :: "backend \<Rightarrow> array \<Rightarrow> array \<Rightarrow> error + array" where
  "log_loss K predictions targets =
     (case type_assert [predictions, targets] of
        Inl e \<Rightarrow> Inl e
      | Inr u \<Rightarrow>
          (case likelihood K predictions targets of
             Inl e \<Rightarrow> Inl e
           | Inr l \<Rightarrow> Inr (array_neg (jnp_log K l))))"

text \<open>The formula of \<open>likelihood\<close> alone, \<open>predictions**targets * (1. - predictions)**(1. -
  targets)\<close>, without the selection that follows it in the source.\<close>

definition direct_formula :: "backend \<Rightarrow> array \<Rightarrow> array \<Rightarrow> error + array" where
  "direct_formula K predictions targets =
     (case array_pow K predictions targets of
        Inl e \<Rightarrow> Inl e
      | Inr a \<Rightarrow>
          (case array_pow K (scalar_sub 1 predictions) (scalar_sub 1 targets) of
             Inl e \<Rightarrow> Inl e
           | Inr b \<Rightarrow> array_mul a b))"

section \<open>Properties of arrays and of backends\<close>

text \<open>The positions at which \<open>likelihood\<close> selects the constant: those where the
  two operands are both 1 or both 0.\<close>

definition override_position :: "array \<Rightarrow> array \<Rightarrow> nat list \<Rightarrow> bool" where
  "override_position predictions targets idx =
     (let t = item targets (operand_index (shape targets) idx);
          p = item predictions (operand_index (shape predictions) idx)
      in (t = Fin 1 \<and> p = Fin 1) \<or> (t = Fin 0 \<and> p = Fin 0))"

text \<open>A property of every element of an array, and the arrays whose elements are values
  of their own element type.\<close>

definition all_items :: "(fl \<Rightarrow> bool) \<Rightarrow> array \<Rightarrow> bool" where
  "all_items P a = (\<forall>idx. in_bounds (shape a) idx \<longrightarrow> P (item a idx))"

definition in_format :: "ffmt \<Rightarrow> fl \<Rightarrow> bool" where
  "in_format f x = (cvt f x = x)"

definition well_formed :: "array \<Rightarrow> bool" where
  "well_formed a = all_items (in_format (float_format (dtype a))) a"




definition square_even :: "backend \<Rightarrow> bool" where
  "square_even K = (\<forall>f x. lax_pow K f (fneg x) (Fin 2) = lax_pow K f x (Fin 2))"

definition square_of_zero :: "backend \<Rightarrow> bool" where
  "square_of_zero K = (\<forall>f. lax_pow K f (Fin 0) (Fin 2) = Fin 0)"

definition log_of_one :: "backend \<Rightarrow> bool" where
  "log_of_one K = (\<forall>f. lax_log K f (Fin 1) = Fin 0)"

fun negative :: "fl \<Rightarrow> bool" where
  "negative NInf = True"
| "negative (Fin a) = (a < 0)"
| "negative x = False"

definition log_domain :: "backend \<Rightarrow> bool" where
  "log_domain K =
     (\<forall>f x. (x = Fin 0 \<longrightarrow> lax_log K f x = NInf)
          \<and> (negative x \<longrightarrow> lax_log K f x = NaN))"


section \<open>Reference backends\<close>

text \<open>
  Two backends to evaluate the functions on. \<open>ieee_backend\<close> has the correctly rounded
  power and logarithm with the special values of IEEE 754 (section 9.2.1);
  \<open>tpu_backend\<close> differs in \<open>0**0\<close> alone, which it evaluates to NaN as the source
  reports.
\<close>

definition is_int :: "real \<Rightarrow> bool" where
  "is_int b = (of_int \<lfloor>b\<rfloor> = b)"

definition mag_less_one :: "fl \<Rightarrow> bool" where
  "mag_less_one x = (case x of Fin a \<Rightarrow> \<bar>a\<bar> < 1 | _ \<Rightarrow> False)"

definition pow_ieee :: "ffmt \<Rightarrow> fl \<Rightarrow> fl \<Rightarrow> fl" where
  "pow_ieee f x y =
     (if y = Fin 0 then Fin 1
      else if x = Fin 1 then Fin 1
      else if x = NaN \<or> y = NaN then NaN
      else case y of
          PInf \<Rightarrow> (if x = Fin (- 1) then Fin 1 else if mag_less_one x then Fin 0 else PInf)
        | NInf \<Rightarrow> (if x = Fin (- 1) then Fin 1 else if mag_less_one x then PInf else Fin 0)
        | Fin b \<Rightarrow>
            (case x of
               PInf \<Rightarrow> (if b < 0 then Fin 0 else PInf)
             | NInf \<Rightarrow> (if b < 0 then Fin 0
                        else if is_int b \<and> odd \<lfloor>b\<rfloor> then NInf else PInf)
             | Fin a \<Rightarrow>
                 (if a = 0 then (if b < 0 then PInf else Fin 0)
                  else if 0 < a then rnd f (a powr b)
                  else if is_int b
                    then (if odd \<lfloor>b\<rfloor> then fneg (rnd f ((- a) powr b))
                          else rnd f ((- a) powr b))
                  else NaN)
             | NaN \<Rightarrow> NaN)
        | NaN \<Rightarrow> NaN)"

definition log_ieee :: "ffmt \<Rightarrow> fl \<Rightarrow> fl" where
  "log_ieee f x =
     (case x of
        NaN \<Rightarrow> NaN
      | PInf \<Rightarrow> PInf
      | NInf \<Rightarrow> NaN
      | Fin a \<Rightarrow> (if a < 0 then NaN else if a = 0 then NInf else rnd f (ln a)))"

definition ieee_backend :: backend where
  "ieee_backend = \<lparr>lax_pow = pow_ieee, lax_log = log_ieee\<rparr>"

definition tpu_backend :: backend where
  "tpu_backend =
     \<lparr>lax_pow = (\<lambda>f x y. if x = Fin 0 \<and> y = Fin 0 then NaN else pow_ieee f x y),
      lax_log = log_ieee\<rparr>"

text \<open>One-dimensional arrays from and to lists, to write inputs and read results.\<close>

definition vec :: "ffmt \<Rightarrow> fl list \<Rightarrow> array" where
  "vec f xs =
     \<lparr>dtype = Floating f, shape = [length xs],
      item = (\<lambda>idx. case idx of [i] \<Rightarrow> (if i < length xs then xs ! i else NaN) | _ \<Rightarrow> NaN)\<rparr>"

definition int_vec :: "int list \<Rightarrow> array" where
  "int_vec xs = (vec Float32 (map (\<lambda>n. Fin (of_int n)) xs))\<lparr>dtype := SignedInteger\<rparr>"

definition to_list :: "array \<Rightarrow> fl list" where
  "to_list a = (case shape a of [n] \<Rightarrow> map (\<lambda>i. item a [i]) [0..<n] | _ \<Rightarrow> [])"

definition result_list :: "error + array \<Rightarrow> error + fl list" where
  "result_list r = map_sum id to_list r"

section \<open>Facts about broadcasting\<close>

lemma broadcast_rev_sym: "broadcast_rev xs ys = broadcast_rev ys xs"
proof (induction xs ys rule: broadcast_rev.induct)
  case (1 ys)
  then show ?case by (cases ys) simp_all
next
  case (2 x xs)
  then show ?case by simp
next
  case (3 x xs y ys)
  then show ?case by auto
qed

lemma broadcast_shapes_sym: "broadcast_shapes a b = broadcast_shapes b a"
  by (simp add: broadcast_shapes_def broadcast_rev_sym [of "rev a"])

lemma broadcast_rev_same: "broadcast_rev xs xs = Some xs"
  by (induction xs) simp_all

lemma broadcast_shapes_same: "broadcast_shapes s s = Inr s"
  by (simp add: broadcast_shapes_def broadcast_rev_same)

lemma index_rev_same: "list_all2 (<) is ds \<Longrightarrow> map2 dim_index ds is = is"
  by (induction "is" ds rule: list_all2_induct) (auto simp: dim_index_def)

lemma operand_index_same: "in_bounds s idx \<Longrightarrow> operand_index s idx = idx"
  by (simp add: in_bounds_def operand_index_def index_rev_same list_all2_rev)




section \<open>Facts about the arithmetic\<close>

lemma ilog2_floor_log: "0 < x \<Longrightarrow> ilog2 x = \<lfloor>log 2 x\<rfloor>"
proof (induction x rule: ilog2.induct)
  case (1 x)
  show ?case
  proof (cases "2 \<le> x")
    case True
    then show ?thesis using 1 floor_log2_half [of x] by (subst ilog2.simps) simp
  next
    case False
    show ?thesis
    proof (cases "x < 1")
      case True
      then show ?thesis using 1 False floor_log2_double [of x] by (subst ilog2.simps) simp
    next
      case ge: False
      then have "0 \<le> log 2 x" "log 2 x < 1" using False 1(3) by (simp_all add: log_less_iff)
      then have "\<lfloor>log 2 x\<rfloor> = 0" by linarith
      then show ?thesis using False ge by (subst ilog2.simps) simp
    qed
  qed
qed

lemma rnd_zero: "rnd f 0 = Fin 0"
  by (cases f; hypsubst; code_simp)

lemma rnd_one: "rnd f 1 = Fin 1"
  by (cases f; hypsubst; code_simp)

lemma rnd_half: "rnd f (1 / 2) = Fin (1 / 2)"
  by (cases f; hypsubst; code_simp)

lemma rnd_two: "rnd f 2 = Fin 2"
  by (cases f; hypsubst; code_simp)

text \<open>Values of \<open>Float32\<close> that the examples use, and a rounded one.\<close>

lemma rnd32_two_three_four:
  "rnd Float32 2 = Fin 2" "rnd Float32 3 = Fin 3" "rnd Float32 4 = Fin 4"
  by code_simp+


lemma rnd32_three_halves: "rnd Float32 (3 / 2) = Fin (3 / 2)"
  by code_simp






lemma rnd_minus: "rnd f (- x) = fneg (rnd f x)"
proof (cases "x = 0")
  case True
  then show ?thesis by (simp add: rnd_zero)
next
  case False
  then show ?thesis
    by (auto simp: rnd_def Let_def sgn_if)
qed



lemma fsub_swap: "fsub f y x = fneg (fsub f x y)"
proof (cases x; cases y)
  fix a b
  assume "x = Fin a" "y = Fin b"
  then show ?thesis using rnd_minus [of f "a - b"] by simp
qed simp_all


lemma feq_Fin: "feq x (Fin c) = (x = Fin c)"
  by (auto simp: feq_def)

lemma promote_same: "promote f f = f"
  by (cases f) simp_all

lemma promote_commute: "promote f g = promote g f"
  by (cases f; cases g) simp_all




lemma fsub_self: "finite_fl x \<Longrightarrow> fsub f x x = Fin 0"
  by (cases x) (simp_all add: rnd_zero)

lemma floating_format: "is_floating d \<Longrightarrow> Floating (float_format d) = d"
  by (cases d) simp_all

section \<open>The results of the three functions\<close>



lemma type_assert_pair:
  "type_assert [a, b] = (if is_floating (dtype a) \<and> is_floating (dtype b) then Inr () else Inl TypeAssertion)"
  by (simp add: type_assert_def)

lemma elementwise2_cases:
  "elementwise2 op a b =
     (case broadcast_shapes (shape a) (shape b) of
        Inl e \<Rightarrow> Inl e
      | Inr s \<Rightarrow>
          Inr \<lparr>dtype = Floating (promote (float_format (dtype a)) (float_format (dtype b))),
               shape = s,
               item = (\<lambda>idx. op (promote (float_format (dtype a)) (float_format (dtype b)))
                  (cvt (promote (float_format (dtype a)) (float_format (dtype b)))
                     (item a (operand_index (shape a) idx)))
                  (cvt (promote (float_format (dtype a)) (float_format (dtype b)))
                     (item b (operand_index (shape b) idx))))\<rparr>)"
  by (simp add: elementwise2_def Let_def split: sum.splits)

lemma elementwise1_fields:
  "dtype (elementwise1 op a) = dtype a"
  "shape (elementwise1 op a) = shape a"
  "item (elementwise1 op a) idx = op (float_format (dtype a)) (item a idx)"
  by (simp_all add: elementwise1_def)

lemma direct_formula_result:
  assumes "direct_formula K p t = Inr v"
  shows "broadcast_shapes (shape p) (shape t) = Inr (shape v)"
    and "dtype v = Floating (promote (float_format (dtype p)) (float_format (dtype t)))"
  using assms
  by (auto simp: direct_formula_def array_pow_def array_mul_def scalar_sub_def elementwise1_fields
      elementwise2_cases promote_same broadcast_shapes_same split: sum.splits)


lemma likelihood_unfold:
  "likelihood K p t =
     (case type_assert [p, t] of
        Inl e \<Rightarrow> Inl e
      | Inr u \<Rightarrow>
     (case direct_formula K p t of
        Inl e \<Rightarrow> Inl e
      | Inr likelihood_vals \<Rightarrow>
     (case jnp_logical_and (array_eq_scalar t 1) (array_eq_scalar p 1) of
        Inl e \<Rightarrow> Inl e
      | Inr both_one \<Rightarrow>
     (case jnp_logical_and (array_eq_scalar t 0) (array_eq_scalar p 0) of
        Inl e \<Rightarrow> Inl e
      | Inr both_zero \<Rightarrow>
     (case jnp_logical_or both_one both_zero of
        Inl e \<Rightarrow> Inl e
      | Inr filter_indices \<Rightarrow> jnp_where filter_indices 1 likelihood_vals)))))"
  by (simp add: likelihood_def direct_formula_def split: sum.splits)

lemma likelihood_result:
  assumes "likelihood K p t = Inr r"
  shows "\<exists>v. direct_formula K p t = Inr v \<and> dtype r = dtype v \<and> shape r = shape v \<and>
           (\<forall>idx. in_bounds (shape r) idx \<longrightarrow>
              item r idx = (if override_position p t idx then Fin 1 else item v idx))"
proof -
  from assms obtain v where v: "direct_formula K p t = Inr v"
    by (auto simp: likelihood_unfold split: sum.splits)
  let ?s = "shape v"
  have s: "broadcast_shapes (shape p) (shape t) = Inr ?s"
    and s': "broadcast_shapes (shape t) (shape p) = Inr ?s"
    using direct_formula_result(1) [OF v] by (simp_all add: broadcast_shapes_sym)
  have fl: "is_floating (dtype v)" using direct_formula_result(2) [OF v] by simp
  have r: "dtype r = dtype v" "shape r = ?s"
    and it: "\<And>idx. in_bounds ?s idx \<Longrightarrow>
       item r idx = (if override_position p t idx then Fin 1 else item v idx)"
    using assms v s' fl
    by (auto simp: likelihood_unfold jnp_logical_and_def jnp_logical_or_def logical2_def
        jnp_where_def array_eq_scalar_def broadcast_shapes_same operand_index_same
        override_position_def rnd_one rnd_zero feq_Fin Let_def
        split: sum.splits)
  show ?thesis using v r it by simp
qed





lemma l2_loss_result:
  assumes "l2_loss K p (Some t) = Inr r"
  shows "is_floating (dtype p)" and "is_floating (dtype t)"
    and "broadcast_shapes (shape p) (shape t) = Inr (shape r)"
    and "dtype r = Floating (promote (float_format (dtype p)) (float_format (dtype t)))"
    and "item r idx =
     (let g = promote (float_format (dtype p)) (float_format (dtype t))
      in fmul g (Fin (1 / 2))
           (lax_pow K g (fsub g (cvt g (item p (operand_index (shape p) idx)))
                                (cvt g (item t (operand_index (shape t) idx)))) (Fin 2)))"
  using assms
  by (auto simp: l2_loss_def type_assert_pair array_sub_def scalar_mul_def
      array_pow_scalar_def elementwise2_cases elementwise1_fields rnd_half rnd_two Let_def
      split: sum.splits if_splits)

lemma l2_loss_defined:
  assumes "is_floating (dtype p)" and "is_floating (dtype t)"
    and "broadcast_shapes (shape p) (shape t) = Inr s"
  shows "\<exists>r. l2_loss K p (Some t) = Inr r"
  using assms
  by (simp add: l2_loss_def type_assert_pair array_sub_def elementwise2_cases)

lemma log_loss_unfold:
  "log_loss K p t =
     (case likelihood K p t of Inl e \<Rightarrow> Inl e | Inr l \<Rightarrow> Inr (array_neg (jnp_log K l)))"
  by (auto simp: log_loss_def likelihood_def type_assert_pair split: sum.splits)




section \<open>Evaluation on concrete arrays\<close>

lemmas eval_defs = likelihood_def l2_loss_def log_loss_def direct_formula_def type_assert_def
  array_sub_def array_mul_def array_pow_def scalar_sub_def scalar_mul_def array_pow_scalar_def
  array_neg_def jnp_log_def array_eq_scalar_def logical2_def jnp_logical_and_def
  jnp_logical_or_def jnp_where_def jnp_zeros_like_def elementwise1_def elementwise2_def
  broadcast_shapes_def operand_index_def dim_index_def vec_def to_list_def
  result_list_def in_bounds_def override_position_def

lemmas rnd_consts = rnd_zero rnd_one rnd_half rnd_two

lemma broadcast_shapes_error: "broadcast_shapes a b = Inl e \<Longrightarrow> e = IncompatibleShapes"
  by (auto simp: broadcast_shapes_def split: option.splits)

lemma vec_fields:
  "dtype (vec f xs) = Floating f"
  "shape (vec f xs) = [length xs]"
  by (simp_all add: vec_def)

lemma int_vec_fields:
  "dtype (int_vec ns) = SignedInteger"
  "shape (int_vec ns) = [length ns]"
  by (simp_all add: vec_def int_vec_def)

lemma zeros_like_fields:
  "dtype (jnp_zeros_like a) = dtype a"
  "shape (jnp_zeros_like a) = shape a"
  "item (jnp_zeros_like a) idx = Fin 0"
  by (simp_all add: jnp_zeros_like_def)

lemma in_bounds_single: "in_bounds [n] idx = (\<exists>i<n. idx = [i])"
  by (auto simp: in_bounds_def list_all2_Cons2)

lemma item_vec: "i < length xs \<Longrightarrow> item (vec f xs) [i] = xs ! i"
  by (simp add: vec_def)

lemma all_items_vec: "all_items P (vec f xs) = list_all P xs"
  by (auto simp: all_items_def in_bounds_single item_vec vec_fields list_all_length)

section \<open>The reference backend has these properties\<close>

lemma is_int_two: "is_int 2"
  by (simp add: is_int_def)

lemma pow_ieee_two:
  "pow_ieee f x (Fin 2) =
     (case x of
        NaN \<Rightarrow> NaN
      | PInf \<Rightarrow> PInf
      | NInf \<Rightarrow> PInf
      | Fin a \<Rightarrow> (if a = 0 then Fin 0 else rnd f (\<bar>a\<bar> powr 2)))"
  by (cases x) (auto simp: pow_ieee_def is_int_two rnd_one)


lemma ieee_square_even: "square_even ieee_backend"
  unfolding square_even_def
proof (intro allI)
  fix f x
  show "lax_pow ieee_backend f (fneg x) (Fin 2) = lax_pow ieee_backend f x (Fin 2)"
    by (cases x) (simp_all add: ieee_backend_def pow_ieee_two)
qed

lemma ieee_square_of_zero: "square_of_zero ieee_backend"
  by (simp add: square_of_zero_def ieee_backend_def pow_ieee_two)

lemma ieee_log_of_one: "log_of_one ieee_backend"
  by (simp add: log_of_one_def ieee_backend_def log_ieee_def rnd_zero)

lemma ieee_log_domain: "log_domain ieee_backend"
  unfolding log_domain_def
proof (intro allI conjI impI)
  fix f x
  assume "x = Fin 0"
  then show "lax_log ieee_backend f x = NInf"
    by (simp add: ieee_backend_def log_ieee_def)
next
  fix f x
  assume "negative x"
  then show "lax_log ieee_backend f x = NaN"
    by (cases x) (simp_all add: ieee_backend_def log_ieee_def)
qed

lemma pow_ieee_zero_exponent: "pow_ieee f x (Fin 0) = Fin 1"
  by (simp add: pow_ieee_def)

lemma pow_ieee_one_exponent: "0 < a \<Longrightarrow> pow_ieee f (Fin a) (Fin 1) = rnd f a"
  by (simp add: pow_ieee_def rnd_one)

section \<open>Properties of the losses\<close>

text \<open>
  C1. At every position where targets and predictions are both 1, or both 0, the result
  of \<open>likelihood\<close> is exactly 1, whatever the power kernel computes there.
\<close>

theorem likelihood_override:
  assumes "likelihood K predictions targets = Inr r"
    and "in_bounds (shape r) idx"
    and "override_position predictions targets idx"
  shows "item r idx = Fin 1"
  using likelihood_result [OF assms(1)] assms(2,3) by auto

text \<open>On the TPU backend the formula is NaN at both positions of this input, and the
  result is 1 at both.\<close>

theorem likelihood_override_witness:
  "(case likelihood tpu_backend (vec Float32 [Fin 1, Fin 0]) (vec Float32 [Fin 1, Fin 0]) of
      Inl e \<Rightarrow> False
    | Inr r \<Rightarrow> in_bounds (shape r) [1]
        \<and> override_position (vec Float32 [Fin 1, Fin 0]) (vec Float32 [Fin 1, Fin 0]) [1]
        \<and> item r [1] = Fin 1)
   \<and> result_list (direct_formula tpu_backend (vec Float32 [Fin 1, Fin 0])
        (vec Float32 [Fin 1, Fin 0])) = Inr [NaN, NaN]"
proof -
  let ?p = "vec Float32 [Fin 1, Fin 0]"
  have "\<exists>r. likelihood tpu_backend ?p ?p = Inr r \<and> shape r = [2]"
    by (simp add: eval_defs)
  then obtain r where r: "likelihood tpu_backend ?p ?p = Inr r" and s: "shape r = [2]"
    by blast
  have b: "in_bounds (shape r) [1]" using s by (simp add: in_bounds_def)
  have o: "override_position ?p ?p [1]" by (simp add: eval_defs)
  have f: "result_list (direct_formula tpu_backend ?p ?p) = Inr [NaN, NaN]"
    by (simp add: eval_defs rnd_consts tpu_backend_def pow_ieee_def)
  from likelihood_override [OF r b o] r b o f show ?thesis by simp
qed

text \<open>
  C2. \<open>log_loss\<close> is the negated logarithm of \<open>likelihood\<close>, elementwise, and fails as
  \<open>likelihood\<close> fails. Where targets and predictions are both 1 or both 0 its result is
  exactly 0, on a backend whose logarithm of 1 is 0.
\<close>

theorem log_loss_composes:
  "log_loss K p t =
     (case likelihood K p t of Inl e \<Rightarrow> Inl e | Inr l \<Rightarrow> Inr (array_neg (jnp_log K l)))
   \<and> (log_of_one K \<longrightarrow> log_loss K p t = Inr r \<longrightarrow> in_bounds (shape r) idx \<longrightarrow>
        override_position p t idx \<longrightarrow> item r idx = Fin 0)"
proof (intro conjI impI)
  show "log_loss K p t =
     (case likelihood K p t of Inl e \<Rightarrow> Inl e | Inr l \<Rightarrow> Inr (array_neg (jnp_log K l)))"
    by (rule log_loss_unfold)
next
  assume K: "log_of_one K" and r: "log_loss K p t = Inr r"
    and b: "in_bounds (shape r) idx" and o: "override_position p t idx"
  from r obtain l where l: "likelihood K p t = Inr l" and rl: "r = array_neg (jnp_log K l)"
    by (auto simp: log_loss_unfold split: sum.splits)
  have "in_bounds (shape l) idx" using b rl by (simp add: array_neg_def jnp_log_def elementwise1_fields)
  from likelihood_result [OF l] this o have "item l idx = Fin 1" by auto
  then show "item r idx = Fin 0"
    using K rl by (simp add: array_neg_def jnp_log_def elementwise1_fields log_of_one_def)
qed

theorem log_loss_composes_witness:
  "log_of_one ieee_backend
   \<and> (case log_loss ieee_backend (vec Float32 [Fin 1, Fin (1 / 2)]) (vec Float32 [Fin 1, Fin 1]) of
        Inl e \<Rightarrow> False
      | Inr r \<Rightarrow> in_bounds (shape r) [0]
          \<and> override_position (vec Float32 [Fin 1, Fin (1 / 2)]) (vec Float32 [Fin 1, Fin 1]) [0]
          \<and> item r [0] = Fin 0)"
proof -
  let ?p = "vec Float32 [Fin 1, Fin (1 / 2)]" and ?t = "vec Float32 [Fin 1, Fin 1]"
  have "\<exists>r. log_loss ieee_backend ?p ?t = Inr r \<and> shape r = [2]"
    by (simp add: eval_defs)
  then obtain r where r: "log_loss ieee_backend ?p ?t = Inr r" and s: "shape r = [2]"
    by blast
  have b: "in_bounds (shape r) [0]" using s by (simp add: in_bounds_def)
  have o: "override_position ?p ?t [0]" by (simp add: eval_defs)
  have "item r [0] = Fin 0"
    using log_loss_composes [of ieee_backend ?p ?t r "[0]"] ieee_log_of_one r b o by blast
  with ieee_log_of_one r b o show ?thesis by simp
qed




text \<open>
  C4. Each of the three functions fails with the TypeAssertion error exactly when the
  element type of an input (for \<open>l2_loss\<close>, after the default for absent targets) is
  not floating-point: whatever the shapes and the kernels are, so the check precedes
  the arithmetic, and the result is then the error and no array.
\<close>

theorem type_assertion_iff:
  "(l2_loss K p targets_arg = Inl TypeAssertion) =
     (\<not> (is_floating (dtype p) \<and>
          is_floating (dtype (case targets_arg of None \<Rightarrow> jnp_zeros_like p | Some t \<Rightarrow> t))))
   \<and> (likelihood K p t = Inl TypeAssertion) = (\<not> (is_floating (dtype p) \<and> is_floating (dtype t)))
   \<and> (log_loss K p t = Inl TypeAssertion) = (\<not> (is_floating (dtype p) \<and> is_floating (dtype t)))"
proof -
  have l: "(likelihood K p t = Inl TypeAssertion) = (\<not> (is_floating (dtype p) \<and> is_floating (dtype t)))"
    by (auto simp: likelihood_def type_assert_pair array_pow_def array_mul_def
        jnp_logical_and_def jnp_logical_or_def logical2_def jnp_where_def elementwise2_cases
        split: sum.splits dest: broadcast_shapes_error)
  have g: "(log_loss K p t = Inl TypeAssertion) = (\<not> (is_floating (dtype p) \<and> is_floating (dtype t)))"
    using l by (auto simp: log_loss_def type_assert_pair split: sum.splits)
  have "(l2_loss K p targets_arg = Inl TypeAssertion) =
     (\<not> (is_floating (dtype p) \<and>
          is_floating (dtype (case targets_arg of None \<Rightarrow> jnp_zeros_like p | Some t \<Rightarrow> t))))"
    by (auto simp: l2_loss_def Let_def type_assert_pair array_sub_def elementwise2_cases
        split: sum.splits dest: broadcast_shapes_error)
  with l g show ?thesis by simp
qed

theorem type_assertion_iff_witness:
  "\<not> is_floating (dtype (int_vec [1, 2, 3]))
   \<and> l2_loss ieee_backend (int_vec [1, 2, 3]) None = Inl TypeAssertion
   \<and> likelihood ieee_backend (vec Float32 [Fin 1, Fin 0]) (int_vec [1, 2, 3]) = Inl TypeAssertion
   \<and> log_loss ieee_backend (vec Float32 [Fin 1, Fin 0]) (int_vec [1, 2, 3]) = Inl TypeAssertion"
  using type_assertion_iff [of ieee_backend "int_vec [1, 2, 3]" None]
    type_assertion_iff [of ieee_backend "vec Float32 [Fin 1, Fin 0]" None "int_vec [1, 2, 3]"]
  by (simp add: vec_fields int_vec_fields zeros_like_fields)



text \<open>
  C6. \<open>l2_loss\<close> is symmetric in its two arguments, on every backend whose square is an
  even function: the same error or the same array.
\<close>

theorem l2_loss_symmetric:
  assumes "square_even K"
  shows "l2_loss K p (Some t) = l2_loss K t (Some p)"
proof (cases "is_floating (dtype p) \<and> is_floating (dtype t)")
  case False
  then show ?thesis by (auto simp: l2_loss_def type_assert_pair)
next
  case fl: True
  show ?thesis
  proof (cases "broadcast_shapes (shape p) (shape t)")
    case (Inl e)
    then have "broadcast_shapes (shape t) (shape p) = Inl e" by (simp add: broadcast_shapes_sym)
    with Inl fl show ?thesis
      by (simp add: l2_loss_def type_assert_pair array_sub_def elementwise2_cases)
  next
    case (Inr s)
    then have s': "broadcast_shapes (shape t) (shape p) = Inr s" by (simp add: broadcast_shapes_sym)
    let ?g = "promote (float_format (dtype p)) (float_format (dtype t))"
    have g: "promote (float_format (dtype t)) (float_format (dtype p)) = ?g"
      by (rule promote_commute)
    have sq: "lax_pow K ?g (fsub ?g y x) (Fin 2) = lax_pow K ?g (fsub ?g x y) (Fin 2)" for x y
      using assms fsub_swap [of ?g y x] by (simp add: square_even_def)
    show ?thesis
      using fl Inr s'
      by (simp add: l2_loss_def type_assert_pair array_sub_def elementwise2_cases
          scalar_mul_def array_pow_scalar_def elementwise1_def g rnd_two sq)
  qed
qed

theorem l2_loss_symmetric_witness:
  "square_even ieee_backend
   \<and> l2_loss ieee_backend (vec Float32 [Fin 1, Fin 2, Fin 3]) (Some (vec Float32 [Fin 1, Fin 1, Fin 1]))
     = l2_loss ieee_backend (vec Float32 [Fin 1, Fin 1, Fin 1]) (Some (vec Float32 [Fin 1, Fin 2, Fin 3]))
   \<and> result_list (l2_loss ieee_backend (vec Float32 [Fin 1, Fin 1, Fin 1])
        (Some (vec Float32 [Fin 1, Fin 2, Fin 3]))) = Inr [Fin 0, Fin (1 / 2), Fin 2]"
proof -
  let ?p = "vec Float32 [Fin 1, Fin 2, Fin 3]" and ?t = "vec Float32 [Fin 1, Fin 1, Fin 1]"
  have e: "l2_loss ieee_backend ?p (Some ?t) = l2_loss ieee_backend ?t (Some ?p)"
    by (rule l2_loss_symmetric [OF ieee_square_even])
  have "result_list (l2_loss ieee_backend ?p (Some ?t)) = Inr [Fin 0, Fin (1 / 2), Fin 2]"
    by (simp add: eval_defs rnd_consts rnd32_two_three_four ieee_backend_def pow_ieee_two)
  then have l: "result_list (l2_loss ieee_backend ?t (Some ?p)) = Inr [Fin 0, Fin (1 / 2), Fin 2]"
    using e by simp
  show ?thesis by (intro conjI ieee_square_even e l)
qed

text \<open>
  C7. Where \<open>likelihood\<close> is 0 or negative, \<open>log_loss\<close> does not fail: it returns an
  array whose element there is plus infinity (at 0) or NaN (at a negative value), on
  every backend whose logarithm has the usual values outside its domain.
\<close>

theorem log_loss_out_of_domain:
  assumes "log_domain K" and "likelihood K p t = Inr l"
  shows "\<exists>r. log_loss K p t = Inr r \<and> shape r = shape l
           \<and> (\<forall>idx. (item l idx = Fin 0 \<longrightarrow> item r idx = PInf)
                  \<and> (negative (item l idx) \<longrightarrow> item r idx = NaN))"
proof -
  let ?r = "array_neg (jnp_log K l)"
  have r: "log_loss K p t = Inr ?r" using assms(2) by (simp add: log_loss_unfold)
  have s: "shape ?r = shape l" by (simp add: array_neg_def jnp_log_def elementwise1_fields)
  have z: "item ?r idx = PInf" if "item l idx = Fin 0" for idx
    using assms(1) that by (simp add: array_neg_def jnp_log_def elementwise1_fields log_domain_def)
  have n: "item ?r idx = NaN" if "negative (item l idx)" for idx
    using assms(1) that by (simp add: array_neg_def jnp_log_def elementwise1_fields log_domain_def)
  show ?thesis using r s z n by blast
qed

theorem log_loss_out_of_domain_witness:
  "log_domain ieee_backend
   \<and> result_list (likelihood ieee_backend (vec Float32 [Fin 0, Fin (- 1)]) (vec Float32 [Fin 1, Fin 1]))
       = Inr [Fin 0, Fin (- 1)]
   \<and> result_list (log_loss ieee_backend (vec Float32 [Fin 0, Fin (- 1)]) (vec Float32 [Fin 1, Fin 1]))
       = Inr [PInf, NaN]"
proof -
  let ?p = "vec Float32 [Fin 0, Fin (- 1)]" and ?t = "vec Float32 [Fin 1, Fin 1]"
  have "\<exists>l. likelihood ieee_backend ?p ?t = Inr l \<and> shape l = [2]
          \<and> item l [0] = Fin 0 \<and> item l [1] = Fin (- 1)"
    by (simp add: eval_defs rnd_consts rnd_minus ieee_backend_def pow_ieee_def is_int_def feq_Fin)
  then obtain l where l: "likelihood ieee_backend ?p ?t = Inr l" and s: "shape l = [2]"
    and i: "item l [0] = Fin 0" "item l [1] = Fin (- 1)"
    by blast
  from log_loss_out_of_domain [OF ieee_log_domain l] obtain r
    where r: "log_loss ieee_backend ?p ?t = Inr r" and sr: "shape r = shape l"
      and z: "\<And>idx. item l idx = Fin 0 \<Longrightarrow> item r idx = PInf"
      and n: "\<And>idx. negative (item l idx) \<Longrightarrow> item r idx = NaN"
    by blast
  have "item r [0] = PInf" "item r [1] = NaN"
    using z [of "[0]"] n [of "[1]"] i by simp_all
  then have b: "result_list (log_loss ieee_backend ?p ?t) = Inr [PInf, NaN]"
    using r sr s by (simp add: result_list_def to_list_def upt_rec)
  have a: "result_list (likelihood ieee_backend ?p ?t) = Inr [Fin 0, Fin (- 1)]"
    using l s i by (simp add: result_list_def to_list_def upt_rec)
  show ?thesis by (intro conjI ieee_log_domain a b)
qed

text \<open>
  C8. \<open>likelihood([1.0, 0.0, 0.5], [1.0, 0.0, 1.0])\<close> is \<open>[1.0, 1.0, 0.5]\<close>, in every float
  format and on every backend whose power is exact at \<open>0.5**1\<close> and \<open>0.5**0\<close>. The third
  position is not one the selection changes: its value is that of the formula.
\<close>

theorem likelihood_scenario:
  assumes "lax_pow K f (Fin (1 / 2)) (Fin 1) = Fin (1 / 2)"
    and "lax_pow K f (Fin (1 / 2)) (Fin 0) = Fin 1"
  shows "result_list (likelihood K (vec f [Fin 1, Fin 0, Fin (1 / 2)]) (vec f [Fin 1, Fin 0, Fin 1]))
           = Inr [Fin 1, Fin 1, Fin (1 / 2)]
   \<and> \<not> override_position (vec f [Fin 1, Fin 0, Fin (1 / 2)]) (vec f [Fin 1, Fin 0, Fin 1]) [2]
   \<and> map_sum id (\<lambda>v. item v [2])
        (direct_formula K (vec f [Fin 1, Fin 0, Fin (1 / 2)]) (vec f [Fin 1, Fin 0, Fin 1]))
       = Inr (Fin (1 / 2))"
  using assms
  by (simp add: eval_defs rnd_consts promote_same feq_Fin)

theorem likelihood_scenario_witness:
  "lax_pow ieee_backend Float32 (Fin (1 / 2)) (Fin 1) = Fin (1 / 2)
   \<and> lax_pow ieee_backend Float32 (Fin (1 / 2)) (Fin 0) = Fin 1
   \<and> result_list (likelihood ieee_backend (vec Float32 [Fin 1, Fin 0, Fin (1 / 2)])
        (vec Float32 [Fin 1, Fin 0, Fin 1])) = Inr [Fin 1, Fin 1, Fin (1 / 2)]"
proof -
  have a: "lax_pow ieee_backend Float32 (Fin (1 / 2)) (Fin 1) = Fin (1 / 2)"
    by (simp add: ieee_backend_def pow_ieee_one_exponent rnd_half)
  have b: "lax_pow ieee_backend Float32 (Fin (1 / 2)) (Fin 0) = Fin 1"
    by (simp add: ieee_backend_def pow_ieee_zero_exponent)
  from likelihood_scenario [OF a b]
  have c: "result_list (likelihood ieee_backend (vec Float32 [Fin 1, Fin 0, Fin (1 / 2)])
        (vec Float32 [Fin 1, Fin 0, Fin 1])) = Inr [Fin 1, Fin 1, Fin (1 / 2)]"
    by blast
  show ?thesis by (intro conjI a b c)
qed




text \<open>
  C10. The loss of an array against itself is zero at every position, for a
  floating-point array whose elements are finite values of its element type, on every
  backend whose square of 0 is 0.
\<close>

theorem l2_loss_self:
  assumes "square_of_zero K" and "is_floating (dtype p)"
    and "well_formed p" and "all_items finite_fl p"
  shows "\<exists>r. l2_loss K p (Some p) = Inr r \<and> dtype r = dtype p \<and> shape r = shape p
           \<and> (\<forall>idx. in_bounds (shape p) idx \<longrightarrow> item r idx = Fin 0)"
proof -
  let ?f = "float_format (dtype p)"
  from l2_loss_defined [OF assms(2) assms(2) broadcast_shapes_same]
  obtain r where r: "l2_loss K p (Some p) = Inr r" by blast
  have "broadcast_shapes (shape p) (shape p) = Inr (shape r)" by (rule l2_loss_result(3) [OF r])
  then have s: "shape r = shape p" by (simp add: broadcast_shapes_same)
  have d: "dtype r = dtype p"
    using l2_loss_result(4) [OF r] assms(2) by (simp add: promote_same floating_format)
  have z: "item r idx = Fin 0" if b: "in_bounds (shape p) idx" for idx
  proof -
    have x: "cvt ?f (item p idx) = item p idx" and fin: "finite_fl (item p idx)"
      using assms(3,4) b by (simp_all add: well_formed_def all_items_def in_format_def)
    have "item r idx = fmul ?f (Fin (1 / 2)) (lax_pow K ?f (fsub ?f (item p idx) (item p idx)) (Fin 2))"
      using l2_loss_result(5) [OF r, of idx] b x
      by (simp add: promote_same operand_index_same Let_def)
    then show ?thesis
      using fin assms(1) by (simp add: fsub_self square_of_zero_def rnd_zero)
  qed
  show ?thesis using r s d z by simp
qed

theorem l2_loss_self_witness:
  "square_of_zero ieee_backend
   \<and> is_floating (dtype (vec Float32 [Fin (3 / 2), Fin (- 2)]))
   \<and> well_formed (vec Float32 [Fin (3 / 2), Fin (- 2)])
   \<and> all_items finite_fl (vec Float32 [Fin (3 / 2), Fin (- 2)])
   \<and> result_list (l2_loss ieee_backend (vec Float32 [Fin (3 / 2), Fin (- 2)])
        (Some (vec Float32 [Fin (3 / 2), Fin (- 2)]))) = Inr [Fin 0, Fin 0]"
proof -
  let ?p = "vec Float32 [Fin (3 / 2), Fin (- 2)]"
  have fl: "is_floating (dtype ?p)" by (simp add: vec_fields)
  have wf: "well_formed ?p"
    by (simp add: well_formed_def all_items_vec vec_fields in_format_def rnd32_three_halves
        rnd_minus rnd32_two_three_four)
  have fin: "all_items finite_fl ?p" by (simp add: all_items_vec)
  from l2_loss_self [OF ieee_square_of_zero fl wf fin] obtain r
    where r: "l2_loss ieee_backend ?p (Some ?p) = Inr r" and s: "shape r = shape ?p"
      and z: "\<And>idx. in_bounds (shape ?p) idx \<Longrightarrow> item r idx = Fin 0"
    by blast
  have "item r [0] = Fin 0" "item r [1] = Fin 0"
    using z [of "[0]"] z [of "[1]"] by (simp_all add: in_bounds_def vec_fields)
  then have l: "result_list (l2_loss ieee_backend ?p (Some ?p)) = Inr [Fin 0, Fin 0]"
    using r s by (simp add: result_list_def to_list_def vec_fields upt_rec)
  show ?thesis by (intro conjI ieee_square_of_zero fl wf fin l)
qed

end
